theory Spec2Isabelle
  imports Main "HOL-Library.AList"
begin

section \<open>JavaScript values, as the two handlers see them\<close>

text \<open>
  Both handlers are written against \<^verbatim>\<open>any\<close>-typed data. The weather handler walks the
  tree that the XML parser returns (strings, numbers, booleans, arrays and plain objects);
  both handlers build a plain object and hand it to \<^verbatim>\<open>res.json\<close>. A value is therefore
  one of the following. A number \<open>Num n\<close> is an integer that a double holds exactly
  (at most \<open>2^53\<close> in size: numeric text of a feed, enum codes), which prints in plain
  decimal; fractions are not modelled. A string is the list of its code units, for text
  whose code units are below 256. An object is the list of its own
  properties in insertion order; the parser and the object literals of the handlers
  never repeat a key.
\<close>

datatype jsval =
    Undefined
  | Null
  | Bool bool
  | Num int
  | Str string
  | Arr "jsval list"
  | Obj "(string \<times> jsval) list"

text \<open>
  What a handler can throw or see thrown. \<open>Error m\<close> is \<^verbatim>\<open>new Error(m)\<close> raised by the
  handler itself; \<open>TypeError\<close> and \<open>RangeError\<close> are raised by the engine (a call of
  something that is not a function, \<^verbatim>\<open>toISOString\<close> of an invalid date);
  \<open>Thrown m\<close> is whatever \<^verbatim>\<open>fetch\<close>, the decoder or the parser threw, with its
  \<^verbatim>\<open>message\<close> property when it has one. The wording of the engine's own messages is
  not fixed by the source; the texts below stand for it.
\<close>

datatype error =
    Error string
  | TypeError string
  | RangeError string
  | Thrown "string option"

text \<open>\<^verbatim>\<open>err?.message ?? 'failed'\<close>\<close>

fun message :: "error \<Rightarrow> string" where
  "message (Error m) = m"
| "message (TypeError m) = m"
| "message (RangeError m) = m"
| "message (Thrown (Some m)) = m"
| "message (Thrown None) = ''failed''"

text \<open>
  Truthiness, which decides \<^verbatim>\<open>a || b\<close>, \<^verbatim>\<open>c ? a : b\<close> and \<^verbatim>\<open>filter\<close>: the falsy values
  are \<^verbatim>\<open>undefined\<close>, \<^verbatim>\<open>null\<close>, \<^verbatim>\<open>false\<close>, \<^verbatim>\<open>0\<close> and the empty string; arrays and objects
  are truthy, also when empty.
\<close>

fun truthy :: "jsval \<Rightarrow> bool" where
  "truthy Undefined = False"
| "truthy Null = False"
| "truthy (Bool b) = b"
| "truthy (Num n) = (n \<noteq> 0)"
| "truthy (Str s) = (s \<noteq> [])"
| "truthy (Arr xs) = True"
| "truthy (Obj kvs) = True"

text \<open>\<^verbatim>\<open>a || b\<close> on values already computed (neither operand of the handlers has an effect).\<close>

definition or_else :: "jsval \<Rightarrow> jsval \<Rightarrow> jsval" where
  "or_else a b = (if truthy a then a else b)"

text \<open>\<^verbatim>\<open>a ?? b\<close>: only \<^verbatim>\<open>undefined\<close> and \<^verbatim>\<open>null\<close> give way to \<open>b\<close>.\<close>

fun nullish :: "jsval \<Rightarrow> bool" where
  "nullish Undefined = True"
| "nullish Null = True"
| "nullish v = False"

definition coalesce :: "jsval \<Rightarrow> jsval \<Rightarrow> jsval" where
  "coalesce a b = (if nullish a then b else a)"

text \<open>
  \<^verbatim>\<open>v.k\<close> for the data properties the weather handler reads (\<^verbatim>\<open>feed\<close>, \<^verbatim>\<open>entry\<close>,
  \<^verbatim>\<open>id\<close>, \<^verbatim>\<open>link\<close>, \<^verbatim>\<open>href\<close>, \<^verbatim>\<open>updated\<close>, \<^verbatim>\<open>published\<close>, \<^verbatim>\<open>title\<close>, \<^verbatim>\<open>summary\<close>,
  \<^verbatim>\<open>#text\<close>). Reading a property of \<^verbatim>\<open>undefined\<close> or \<^verbatim>\<open>null\<close> throws. An object answers
  with its own property or \<^verbatim>\<open>undefined\<close>. Arrays and primitives have none of these
  as data; the one inherited name among them is the method \<^verbatim>\<open>link\<close> of a string, which
  the handler reads only as \<^verbatim>\<open>e.link?.href\<close>, and a function has no \<^verbatim>\<open>href\<close>: that
  expression is \<^verbatim>\<open>undefined\<close> either way, so the method is left out.
\<close>

fun getProp :: "jsval \<Rightarrow> string \<Rightarrow> error + jsval" where
  "getProp Undefined k = Inl (TypeError (''Cannot read properties of undefined (reading '' @ k @ '')''))"
| "getProp Null k = Inl (TypeError (''Cannot read properties of null (reading '' @ k @ '')''))"
| "getProp (Obj kvs) k = Inr (case map_of kvs k of None \<Rightarrow> Undefined | Some v \<Rightarrow> v)"
| "getProp v k = Inr Undefined"

text \<open>\<^verbatim>\<open>v?.k\<close>: \<^verbatim>\<open>undefined\<close> when \<open>v\<close> is nullish, and then nothing can throw.\<close>

fun optProp :: "jsval \<Rightarrow> string \<Rightarrow> jsval" where
  "optProp (Obj kvs) k = (case map_of kvs k of None \<Rightarrow> Undefined | Some v \<Rightarrow> v)"
| "optProp v k = Undefined"

text \<open>\<^verbatim>\<open>typeof v === 'string'\<close>\<close>

fun isString :: "jsval \<Rightarrow> bool" where
  "isString (Str s) = True"
| "isString v = False"

text \<open>\<^verbatim>\<open>Array.isArray(v)\<close>\<close>

fun isArray :: "jsval \<Rightarrow> bool" where
  "isArray (Arr xs) = True"
| "isArray v = False"

subsection \<open>Strings: trimming and decimal numerals\<close>

text \<open>
  \<^verbatim>\<open>String.prototype.trim\<close>: white space and line terminators are removed from both
  ends. Below 256 these are tab, line feed, vertical tab, form feed, carriage return,
  space and the no-break space.
\<close>

definition isSpace :: "char \<Rightarrow> bool" where
  "isSpace c = (c \<in> set [CHR 0x09, CHR 0x0A, CHR 0x0B, CHR 0x0C, CHR 0x0D, CHR 0x20, CHR 0xA0])"

definition trim :: "string \<Rightarrow> string" where
  "trim s = rev (dropWhile isSpace (rev (dropWhile isSpace s)))"

definition digit :: "nat \<Rightarrow> char" where
  "digit d = ''0123456789'' ! d"

fun digits :: "nat \<Rightarrow> string" where
  "digits n = (if n < 10 then [digit n] else digits (n div 10) @ [digit (n mod 10)])"

declare digits.simps [simp del]

text \<open>The decimal text of an integer, as a template literal and \<^verbatim>\<open>toString\<close> print it.\<close>

definition showInt :: "int \<Rightarrow> string" where
  "showInt i = (if i < 0 then CHR ''-'' # digits (nat (- i)) else digits (nat i))"

text \<open>
  \<^verbatim>\<open>v.toString()\<close> on a truthy value or a string, as in \<^verbatim>\<open>(e.title || '').toString()\<close>.
  An array joins the texts of its elements with commas, \<^verbatim>\<open>undefined\<close> and \<^verbatim>\<open>null\<close>
  counting as empty. A plain object prints as \<^verbatim>\<open>[object Object]\<close>; when the parsed
  element has a child or attribute called \<^verbatim>\<open>toString\<close> the own property shadows the
  method, holds data, and the call throws.
\<close>

fun intercalate :: "string \<Rightarrow> string list \<Rightarrow> string" where
  "intercalate sep [] = []"
| "intercalate sep [x] = x"
| "intercalate sep (x # y # ys) = x @ sep @ intercalate sep (y # ys)"

fun toString :: "jsval \<Rightarrow> error + string"
and toStrings :: "jsval list \<Rightarrow> error + string list" where
  "toString Undefined = Inl (TypeError ''Cannot read properties of undefined (reading toString)'')"
| "toString Null = Inl (TypeError ''Cannot read properties of null (reading toString)'')"
| "toString (Bool b) = Inr (if b then ''true'' else ''false'')"
| "toString (Num n) = Inr (showInt n)"
| "toString (Str s) = Inr s"
| "toString (Arr xs) = (case toStrings xs of Inl e \<Rightarrow> Inl e | Inr ss \<Rightarrow> Inr (intercalate '','' ss))"
| "toString (Obj kvs) =
     (if map_of kvs ''toString'' \<noteq> None then Inl (TypeError ''toString is not a function'')
      else Inr ''[object Object]'')"
| "toStrings [] = Inr []"
| "toStrings (x # xs) =
     (case (if nullish x then Inr [] else toString x) of
        Inl e \<Rightarrow> Inl e
      | Inr s \<Rightarrow> (case toStrings xs of Inl e \<Rightarrow> Inl e | Inr ss \<Rightarrow> Inr (s # ss)))"


subsection \<open>Sequencing computations that may throw\<close>

text \<open>
  \<open>andThen m f\<close> evaluates \<open>m\<close> and, unless it threw, goes on with \<open>f\<close>.
  \<open>mapM f xs\<close> is \<^verbatim>\<open>xs.map(f)\<close> where \<open>f\<close> may throw: the first exception ends the loop.
\<close>

definition andThen :: "error + 'a \<Rightarrow> ('a \<Rightarrow> error + 'b) \<Rightarrow> error + 'b" where
  "andThen m f = (case m of Inl e \<Rightarrow> Inl e | Inr x \<Rightarrow> f x)"

fun mapM :: "('a \<Rightarrow> error + 'b) \<Rightarrow> 'a list \<Rightarrow> error + 'b list" where
  "mapM f [] = Inr []"
| "mapM f (x # xs) =
     (case f x of
        Inl e \<Rightarrow> Inl e
      | Inr y \<Rightarrow> (case mapM f xs of Inl e \<Rightarrow> Inl e | Inr ys \<Rightarrow> Inr (y # ys)))"

section \<open>The response\<close>

text \<open>
  What \<^verbatim>\<open>res.json\<close> sends is the \<^verbatim>\<open>JSON.stringify\<close> image of the body: a property whose
  value is \<^verbatim>\<open>undefined\<close> is left out of its object, and \<^verbatim>\<open>undefined\<close> inside an array is
  written as \<^verbatim>\<open>null\<close>. The type of JSON documents has no \<^verbatim>\<open>undefined\<close>.
\<close>

datatype json =
    JNull
  | JBool bool
  | JNum int
  | JStr string
  | JArr "json list"
  | JObj "(string \<times> json) list"

fun stringify :: "jsval \<Rightarrow> json option"
and stringifyElems :: "jsval list \<Rightarrow> json list"
and stringifyProps :: "(string \<times> jsval) list \<Rightarrow> (string \<times> json) list" where
  "stringify Undefined = None"
| "stringify Null = Some JNull"
| "stringify (Bool b) = Some (JBool b)"
| "stringify (Num n) = Some (JNum n)"
| "stringify (Str s) = Some (JStr s)"
| "stringify (Arr xs) = Some (JArr (stringifyElems xs))"
| "stringify (Obj kvs) = Some (JObj (stringifyProps kvs))"
| "stringifyElems [] = []"
| "stringifyElems (x # xs) =
     (case stringify x of None \<Rightarrow> JNull | Some j \<Rightarrow> j) # stringifyElems xs"
| "stringifyProps [] = []"
| "stringifyProps ((k, v) # kvs) =
     (case stringify v of None \<Rightarrow> stringifyProps kvs | Some j \<Rightarrow> (k, j) # stringifyProps kvs)"

text \<open>
  The response object \<^verbatim>\<open>res\<close>: the status code, the headers the handler has set and the
  body once \<^verbatim>\<open>json\<close> has been called. \<^verbatim>\<open>setHeader\<close> replaces an earlier value of the
  same name.
\<close>

record response =
  statusCode :: nat
  headers :: "(string \<times> string) list"
  body :: "json option"

definition res0 :: response where
  "res0 = \<lparr>statusCode = 200, headers = [], body = None\<rparr>"

definition setHeader :: "string \<Rightarrow> string \<Rightarrow> response \<Rightarrow> response" where
  "setHeader k v res = res\<lparr>headers := AList.update k v (headers res)\<rparr>"

definition status :: "nat \<Rightarrow> response \<Rightarrow> response" where
  "status code res = res\<lparr>statusCode := code\<rparr>"

definition sendJson :: "jsval \<Rightarrow> response \<Rightarrow> response" where
  "sendJson v res = res\<lparr>body := stringify v\<rparr>"

definition header :: "response \<Rightarrow> string \<Rightarrow> string option" where
  "header res k = map_of (headers res) k"

text \<open>The \<^verbatim>\<open>entries\<close> array of a response whose body has one.\<close>

definition entriesOf :: "response \<Rightarrow> json list option" where
  "entriesOf res =
     (case body res of
        Some (JObj props) \<Rightarrow> (case map_of props ''entries'' of Some (JArr es) \<Rightarrow> Some es | _ \<Rightarrow> None)
      | _ \<Rightarrow> None)"

text \<open>
  What \<^verbatim>\<open>await fetch(url, {headers})\<close> resolves to, as far as the handlers look: the
  status line and the outcome of reading the whole body (\<^verbatim>\<open>text()\<close> or
  \<^verbatim>\<open>arrayBuffer()\<close>). \<^verbatim>\<open>resp.ok\<close> is a status from 200 to 299.
\<close>

record 'b upstream =
  upStatus :: nat
  statusText :: string
  payload :: "error + 'b"

definition ok :: "'b upstream \<Rightarrow> bool" where
  "ok r = (200 \<le> upStatus r \<and> upStatus r \<le> 299)"

type_synonym 'b fetch = "string \<Rightarrow> (string \<times> string) list \<Rightarrow> error + 'b upstream"

section \<open>The weather handler (api/envcan-alerts.ts)\<close>

definition REGION_DEFAULT :: string where
  "REGION_DEFAULT = ''on61''"

text \<open>
  \<^verbatim>\<open>${v}\<close> in a template literal: like \<^verbatim>\<open>toString\<close>, but \<^verbatim>\<open>undefined\<close> and \<^verbatim>\<open>null\<close>
  print as their names.
\<close>

definition template :: "jsval \<Rightarrow> error + string" where
  "template v = (case v of Undefined \<Rightarrow> Inr ''undefined'' | Null \<Rightarrow> Inr ''null'' | _ \<Rightarrow> toString v)"

text \<open>
  \<^verbatim>\<open>(req.query.region as string) || REGION_DEFAULT\<close>. The request is its \<^verbatim>\<open>region\<close>
  query value: \<^verbatim>\<open>undefined\<close> when the parameter is missing, a string, or an array of
  strings when it is repeated.
\<close>

definition resolveRegion :: "jsval \<Rightarrow> jsval" where
  "resolveRegion q = or_else q (Str REGION_DEFAULT)"

definition envcanUrl :: "jsval \<Rightarrow> error + string" where
  "envcanUrl region =
     andThen (template region) (\<lambda>s. Inr (''https://weather.gc.ca/rss/battleboard/'' @ s @ ''_e.xml''))"

text \<open>
  \<^verbatim>\<open>Array.isArray(rawEntries) ? rawEntries : rawEntries ? [rawEntries] : []\<close>
\<close>

definition toEntries :: "jsval \<Rightarrow> jsval list" where
  "toEntries rawEntries =
     (case rawEntries of
        Arr xs \<Rightarrow> xs
      | _ \<Rightarrow> if truthy rawEntries then [rawEntries] else [])"

text \<open>
  \<^verbatim>\<open>s0?.trim()\<close> in the summary: nothing is called on \<^verbatim>\<open>undefined\<close> or \<^verbatim>\<open>null\<close>, a string
  is trimmed, and any other value has no method \<^verbatim>\<open>trim\<close>, so the call throws.
\<close>

fun optTrim :: "jsval \<Rightarrow> error + jsval" where
  "optTrim Undefined = Inr Undefined"
| "optTrim Null = Inr Undefined"
| "optTrim (Str s) = Inr (Str (trim s))"
| "optTrim v = Inl (TypeError ''trim is not a function'')"

text \<open>
  The callback of \<^verbatim>\<open>map\<close>, field by field in the order of the object literal:
  \<^verbatim>\<open>
  id: e.id || e.link?.href || e.updated,
  title: (e.title || '').toString().trim(),
  updatedISO: e.updated || e.published || null,
  summary: (typeof e.summary === 'string' ? e.summary : e.summary?.['#text'])?.trim() || '',
  link: e.link?.href || null,
  \<close>
\<close>

definition entryId :: "jsval \<Rightarrow> error + jsval" where
  "entryId e =
     andThen (getProp e ''id'') (\<lambda>i.
       if truthy i then Inr i else
       andThen (getProp e ''link'') (\<lambda>l.
         if truthy (optProp l ''href'') then Inr (optProp l ''href'') else
         getProp e ''updated''))"

definition entryTitle :: "jsval \<Rightarrow> error + jsval" where
  "entryTitle e =
     andThen (getProp e ''title'') (\<lambda>t.
     andThen (toString (or_else t (Str []))) (\<lambda>s.
     Inr (Str (trim s))))"

definition entryUpdatedISO :: "jsval \<Rightarrow> error + jsval" where
  "entryUpdatedISO e =
     andThen (getProp e ''updated'') (\<lambda>u.
       if truthy u then Inr u else
       andThen (getProp e ''published'') (\<lambda>p. Inr (or_else p Null)))"

definition entrySummary :: "jsval \<Rightarrow> error + jsval" where
  "entrySummary e =
     andThen (getProp e ''summary'') (\<lambda>sm.
     andThen (optTrim (if isString sm then sm else optProp sm ''#text'')) (\<lambda>t.
     Inr (or_else t (Str []))))"

definition entryLink :: "jsval \<Rightarrow> error + jsval" where
  "entryLink e =
     andThen (getProp e ''link'') (\<lambda>l. Inr (or_else (optProp l ''href'') Null))"

definition mapEntry :: "jsval \<Rightarrow> error + jsval" where
  "mapEntry e =
     andThen (entryId e) (\<lambda>i.
     andThen (entryTitle e) (\<lambda>t.
     andThen (entryUpdatedISO e) (\<lambda>u.
     andThen (entrySummary e) (\<lambda>s.
     andThen (entryLink e) (\<lambda>l.
     Inr (Obj [(''id'', i), (''title'', t), (''updatedISO'', u), (''summary'', s), (''link'', l)]))))))"

text \<open>
  The \<^verbatim>\<open>try\<close> block in three steps. \<open>envcanFeed\<close> is the fetch and the parse:
  \<open>fetch\<close> and \<open>parse\<close> stand for the network and for
  \<^verbatim>\<open>new XMLParser({...}).parse\<close>. \<open>envcanEntries\<close> finds the entry node, makes it
  a sequence and maps it. \<open>envcanBody\<close> is the whole block up to the complete body,
  with \<open>q\<close> for \<^verbatim>\<open>req.query.region\<close>. Nothing after that point can throw: the
  values are strings, numbers, \<^verbatim>\<open>null\<close>, arrays and plain objects, which
  \<^verbatim>\<open>JSON.stringify\<close> accepts.
\<close>

definition envcanFeed :: "string fetch \<Rightarrow> (string \<Rightarrow> error + jsval) \<Rightarrow> jsval \<Rightarrow> error + jsval" where
  "envcanFeed fetch parse region =
     andThen (envcanUrl region) (\<lambda>url.
     andThen (fetch url [(''User-Agent'', ''GeoffDash/1.0 (envcan-alerts)'')]) (\<lambda>r.
     if \<not> ok r then
       Inl (Error (''EnvCan fetch failed: '' @ showInt (int (upStatus r)) @ '' '' @ statusText r))
     else
     andThen (payload r) (\<lambda>xml. parse xml)))"

definition rawEntries :: "jsval \<Rightarrow> jsval" where
  "rawEntries feed = optProp (optProp feed ''feed'') ''entry''"

definition envcanEntries :: "jsval \<Rightarrow> error + jsval list" where
  "envcanEntries feed = mapM mapEntry (toEntries (rawEntries feed))"

definition envcanBody :: "string fetch \<Rightarrow> (string \<Rightarrow> error + jsval) \<Rightarrow> jsval \<Rightarrow> error + jsval" where
  "envcanBody fetch parse q =
     (let region = resolveRegion q in
      andThen (envcanFeed fetch parse region) (\<lambda>feed.
      andThen (envcanEntries feed) (\<lambda>entries.
      Inr (Obj [(''region'', region), (''entries'', Arr entries)]))))"

text \<open>
  The handler: the \<^verbatim>\<open>try\<close> block sets both headers and answers 200; the \<^verbatim>\<open>catch\<close> block
  starts from the untouched response, sets the cross-origin header and answers 500.
\<close>

definition envcanHandler :: "string fetch \<Rightarrow> (string \<Rightarrow> error + jsval) \<Rightarrow> jsval \<Rightarrow> response" where
  "envcanHandler fetch parse q =
     (case envcanBody fetch parse q of
        Inr b \<Rightarrow>
          sendJson b (status 200
            (setHeader ''Access-Control-Allow-Origin'' ''*''
              (setHeader ''Cache-Control'' ''s-maxage=120, stale-while-revalidate=600'' res0)))
      | Inl err \<Rightarrow>
          sendJson (Obj [(''error'', Str (message err))]) (status 500
            (setHeader ''Access-Control-Allow-Origin'' ''*'' res0)))"

section \<open>The transit handler (api/ttc-alerts.ts)\<close>

subsection \<open>The decoded feed\<close>

text \<open>
  \<^verbatim>\<open>FeedMessage.decode\<close> belongs to the GTFS-realtime bindings, which are not part of
  the repository. The records below are a feed message as its bytes carry it, with the
  fields the handler reads: an optional field that the feed omits is \<open>None\<close>, a
  repeated field that it omits is the empty list; \<^verbatim>\<open>id\<close> and \<^verbatim>\<open>text\<close> are required.
\<close>

record Translation =
  text' :: string

record TranslatedString =
  translation :: "Translation list"

record TimeRange =
  start :: "nat option"
  end' :: "nat option"

record TripDescriptor =
  tripId :: "string option"

record EntitySelector =
  routeId :: "string option"
  stopId :: "string option"
  trip :: "TripDescriptor option"

record Alert =
  headerText :: "TranslatedString option"
  descriptionText :: "TranslatedString option"
  url :: "TranslatedString option"
  cause :: "int option"
  effect :: "int option"
  severity :: "int option"
  activePeriod :: "TimeRange list"
  informedEntity :: "EntitySelector list"

record FeedEntity =
  id' :: string
  alert :: "Alert option"

record FeedMessage =
  entity :: "FeedEntity list"

text \<open>
  What the handler reads is the message object of the decoder, and that answers the
  read of a field the feed omits with the default the schema puts on the prototype:
  zero for a 64-bit number, the first value the enum declares (\<^verbatim>\<open>UNKNOWN_CAUSE = 1\<close>,
  \<^verbatim>\<open>UNKNOWN_EFFECT = 8\<close>), the empty string, \<^verbatim>\<open>null\<close> for a sub-message.

  A 64-bit number is a \<^verbatim>\<open>Long\<close> object. As an object it is truthy whatever its value,
  and \<^verbatim>\<open>Number(...)\<close> of it is its value (rounded to a double beyond \<open>2^53\<close>, where the
  date is out of range with or without the rounding).
\<close>

datatype long = Long nat

definition truthyLong :: "long \<Rightarrow> bool" where
  "truthyLong l = True"

fun Number :: "long \<Rightarrow> nat" where
  "Number (Long n) = n"

definition UNKNOWN_CAUSE :: int where
  "UNKNOWN_CAUSE = 1"

definition UNKNOWN_EFFECT :: int where
  "UNKNOWN_EFFECT = 8"

text \<open>\<^verbatim>\<open>p.start\<close>, \<^verbatim>\<open>p.end\<close>\<close>

definition readTime :: "nat option \<Rightarrow> long" where
  "readTime t = Long (case t of None \<Rightarrow> 0 | Some s \<Rightarrow> s)"

text \<open>\<^verbatim>\<open>a.cause\<close>, \<^verbatim>\<open>a.effect\<close>, with the default of the enum\<close>

definition readEnum :: "int \<Rightarrow> int option \<Rightarrow> jsval" where
  "readEnum dflt x = Num (case x of None \<Rightarrow> dflt | Some n \<Rightarrow> n)"

text \<open>\<^verbatim>\<open>ie.routeId\<close>, \<^verbatim>\<open>ie.stopId\<close>, \<^verbatim>\<open>ie.trip.tripId\<close>\<close>

definition readString :: "string option \<Rightarrow> jsval" where
  "readString x = Str (case x of None \<Rightarrow> [] | Some s \<Rightarrow> s)"

text \<open>
  \<^verbatim>\<open>a.severity\<close>: the schema has no field of this name (its level is
  \<^verbatim>\<open>severity_level\<close>), so no default stands behind the read; it is \<^verbatim>\<open>undefined\<close>
  unless the object carries such a property.
\<close>

definition readSeverity :: "int option \<Rightarrow> jsval" where
  "readSeverity x = (case x of None \<Rightarrow> Undefined | Some n \<Rightarrow> Num n)"

subsection \<open>Dates\<close>

text \<open>
  \<^verbatim>\<open>new Date(ms).toISOString()\<close> for a whole, non-negative number of milliseconds. A
  time value beyond 8.64e15 makes the date invalid and \<^verbatim>\<open>toISOString\<close> throws a
  \<^verbatim>\<open>RangeError\<close>. Otherwise the text is \<^verbatim>\<open>YYYY-MM-DDTHH:mm:ss.sssZ\<close> in UTC, the year
  written with four digits up to 9999 and as \<^verbatim>\<open>+YYYYYY\<close> beyond. The calendar date of
  a day number is computed in the proleptic Gregorian calendar, counting years from
  1 March so that the leap day comes last.
\<close>

definition pad :: "nat \<Rightarrow> nat \<Rightarrow> string" where
  "pad w n = replicate (w - length (digits n)) CHR ''0'' @ digits n"

definition civil :: "nat \<Rightarrow> nat \<times> nat \<times> nat" where
  "civil days =
     (let z = days + 719468;
          era = z div 146097;
          doe = z mod 146097;
          yoe = (doe - doe div 1460 + doe div 36524 - doe div 146096) div 365;
          doy = doe - (365 * yoe + yoe div 4 - yoe div 100);
          mp = (5 * doy + 2) div 153;
          d = doy - (153 * mp + 2) div 5 + 1;
          m = (if mp < 10 then mp + 3 else mp - 9);
          y = yoe + era * 400 + (if m \<le> 2 then 1 else 0)
      in (y, m, d))"

definition yearText :: "nat \<Rightarrow> string" where
  "yearText y = (if y \<le> 9999 then pad 4 y else CHR ''+'' # pad 6 y)"

definition formatISO :: "nat \<Rightarrow> string" where
  "formatISO ms =
     (let secs = ms div 1000;
          (y, m, d) = civil (secs div 86400);
          tod = secs mod 86400
      in yearText y @ ''-'' @ pad 2 m @ ''-'' @ pad 2 d @ ''T''
         @ pad 2 (tod div 3600) @ '':'' @ pad 2 (tod mod 3600 div 60) @ '':''
         @ pad 2 (tod mod 60) @ ''.'' @ pad 3 (ms mod 1000) @ ''Z'')"

definition toISOString :: "nat \<Rightarrow> error + string" where
  "toISOString ms =
     (if ms > 8640000000000000 then Inl (RangeError ''Invalid time value'')
      else Inr (formatISO ms))"

subsection \<open>Mapping one entity\<close>

text \<open>
  \<^verbatim>\<open>const pickText = (tx) => (tx?.translation?.[0]?.text ? String(tx.translation[0].text) : undefined)\<close>
\<close>

definition pickText :: "TranslatedString option \<Rightarrow> jsval" where
  "pickText tx =
     (case tx of
        None \<Rightarrow> Undefined
      | Some t \<Rightarrow>
          (case translation t of
             [] \<Rightarrow> Undefined
           | tr # rest \<Rightarrow> if truthy (Str (text' tr)) then Str (text' tr) else Undefined))"

text \<open>\<^verbatim>\<open>t ? new Date(Number(t) * 1000).toISOString() : null\<close>, on the bound read\<close>

definition isoOrNull :: "long \<Rightarrow> error + jsval" where
  "isoOrNull t =
     (if truthyLong t then andThen (toISOString (Number t * 1000)) (\<lambda>iso. Inr (Str iso))
      else Inr Null)"

definition mapPeriod :: "TimeRange \<Rightarrow> error + jsval" where
  "mapPeriod p =
     andThen (isoOrNull (readTime (start p))) (\<lambda>s.
     andThen (isoOrNull (readTime (end' p))) (\<lambda>e.
     Inr (Obj [(''start'', s), (''end'', e)])))"

definition mapInformed :: "EntitySelector \<Rightarrow> jsval" where
  "mapInformed ie =
     Obj [(''routeId'', coalesce (readString (routeId ie)) Null),
          (''stopId'', coalesce (readString (stopId ie)) Null),
          (''tripId'', coalesce (case trip ie of None \<Rightarrow> Undefined | Some t \<Rightarrow> readString (tripId t)) Null)]"

text \<open>
  The callback of \<^verbatim>\<open>map\<close>. It runs on entities that passed the filter; on an entity
  without an alert, \<^verbatim>\<open>a.headerText\<close> would throw.
\<close>

definition mapAlert :: "FeedEntity \<Rightarrow> error + jsval" where
  "mapAlert e =
     (case alert e of
        None \<Rightarrow> Inl (TypeError ''Cannot read properties of undefined (reading headerText)'')
      | Some a \<Rightarrow>
          andThen (mapM mapPeriod (activePeriod a)) (\<lambda>periods.
          Inr (Obj [(''id'', Str (id' e)),
                    (''header'', or_else (pickText (headerText a)) Null),
                    (''description'', or_else (pickText (descriptionText a)) Null),
                    (''url'', or_else (pickText (url a)) Null),
                    (''cause'', coalesce (readEnum UNKNOWN_CAUSE (cause a)) Null),
                    (''effect'', coalesce (readEnum UNKNOWN_EFFECT (effect a)) Null),
                    (''severity'', coalesce (readSeverity (severity a)) Null),
                    (''activePeriods'', Arr periods),
                    (''informed'', Arr (map mapInformed (informedEntity a)))])))"

text \<open>\<^verbatim>\<open>.filter((e) => e.alert)\<close>: an alert is an object, so present means truthy.\<close>

definition hasAlert :: "FeedEntity \<Rightarrow> bool" where
  "hasAlert e = (alert e \<noteq> None)"

definition TTC_ALERTS_FEED :: string where
  "TTC_ALERTS_FEED = ''https://bustime.ttc.ca/gtfsrt/alerts''"

text \<open>
  The \<^verbatim>\<open>try\<close> block in three steps: \<open>ttcFeed\<close> is the fetch and the decoding
  (\<open>fetch\<close> stands for the network and \<open>decode\<close> for \<^verbatim>\<open>FeedMessage.decode\<close> on
  the bytes read), \<open>ttcAlerts\<close> the filter and the map, \<open>ttcBody\<close> the whole block
  up to the complete body.
\<close>

definition ttcFeed :: "'b fetch \<Rightarrow> ('b \<Rightarrow> error + FeedMessage) \<Rightarrow> error + FeedMessage" where
  "ttcFeed fetch decode =
     andThen (fetch TTC_ALERTS_FEED [(''User-Agent'', ''GeoffDash/1.0 (ttc-alerts)'')]) (\<lambda>resp.
     if \<not> ok resp then
       Inl (Error (''TTC alerts fetch failed: '' @ showInt (int (upStatus resp)) @ '' '' @ statusText resp))
     else
     andThen (payload resp) (\<lambda>buf. decode buf))"

definition ttcAlerts :: "FeedMessage \<Rightarrow> error + jsval list" where
  "ttcAlerts feed = mapM mapAlert (filter hasAlert (entity feed))"

definition ttcBody :: "'b fetch \<Rightarrow> ('b \<Rightarrow> error + FeedMessage) \<Rightarrow> error + jsval" where
  "ttcBody fetch decode =
     andThen (ttcFeed fetch decode) (\<lambda>feed.
     andThen (ttcAlerts feed) (\<lambda>alerts.
     Inr (Obj [(''source'', Str ''bustime.ttc.ca''),
               (''count'', Num (int (length alerts))),
               (''alerts'', Arr alerts)])))"

definition ttcHandler :: "'b fetch \<Rightarrow> ('b \<Rightarrow> error + FeedMessage) \<Rightarrow> response" where
  "ttcHandler fetch decode =
     (case ttcBody fetch decode of
        Inr b \<Rightarrow>
          sendJson b (status 200
            (setHeader ''Access-Control-Allow-Origin'' ''*''
              (setHeader ''Cache-Control'' ''s-maxage=60, stale-while-revalidate=300'' res0)))
      | Inl err \<Rightarrow>
          sendJson (Obj [(''error'', Str (message err))]) (status 500
            (setHeader ''Access-Control-Allow-Origin'' ''*'' res0)))"

section \<open>Canned collaborators\<close>

text \<open>
  The examples below run the handlers against fixed surroundings: an upstream that
  answers every request with the same status line and body, a network that cannot be
  reached (\<^verbatim>\<open>fetch\<close> rejects), an upstream that serves one URL only, and a decoder or
  parser that yields a given feed.
\<close>

definition answering :: "nat \<Rightarrow> string \<Rightarrow> 'b \<Rightarrow> 'b fetch" where
  "answering code reason content u hdrs =
     Inr \<lparr>upStatus = code, statusText = reason, payload = Inr content\<rparr>"

definition unreachable :: "'b fetch" where
  "unreachable u hdrs = Inl (Thrown (Some ''fetch failed''))"

definition servingOnly :: "string \<Rightarrow> 'b \<Rightarrow> 'b fetch" where
  "servingOnly served content u hdrs =
     (if u = served then Inr \<lparr>upStatus = 200, statusText = ''OK'', payload = Inr content\<rparr>
      else Inr \<lparr>upStatus = 404, statusText = ''Not Found'', payload = Inr content\<rparr>)"

definition yielding :: "'a \<Rightarrow> 'b \<Rightarrow> error + 'a" where
  "yielding x input = Inr x"

text \<open>
  The transit scenario of the specification: an entity with an alert (header
  \<^verbatim>\<open>Line closure\<close> with a second, French translation, an empty description, no
  \<^verbatim>\<open>url\<close>, no cause, one active period with a start only) and an entity without an
  alert; and the JSON record that the handler sends for the first.
\<close>

definition lineClosure :: FeedEntity where
  "lineClosure =
     \<lparr>id' = ''a1'',
      alert = Some
        \<lparr>headerText = Some \<lparr>translation = [\<lparr>text' = ''Line closure''\<rparr>, \<lparr>text' = ''Fermeture de ligne''\<rparr>]\<rparr>,
         descriptionText = Some \<lparr>translation = []\<rparr>,
         url = None,
         cause = None,
         effect = Some 1,
         severity = None,
         activePeriod = [\<lparr>start = Some 1700000000, end' = None\<rparr>],
         informedEntity = [\<lparr>routeId = Some ''501'', stopId = None, trip = None\<rparr>]\<rparr>\<rparr>"

definition vehicleOnly :: FeedEntity where
  "vehicleOnly = \<lparr>id' = ''v7'', alert = None\<rparr>"

definition lineClosureJson :: json where
  "lineClosureJson =
     JObj [(''id'', JStr ''a1''),
           (''header'', JStr ''Line closure''),
           (''description'', JNull),
           (''url'', JNull),
           (''cause'', JNum 1),
           (''effect'', JNum 1),
           (''severity'', JNull),
           (''activePeriods'', JArr [JObj [(''start'', JStr ''2023-11-14T22:13:20.000Z''),
                                           (''end'', JStr ''1970-01-01T00:00:00.000Z'')]]),
           (''informed'', JArr [JObj [(''routeId'', JStr ''501''), (''stopId'', JStr []), (''tripId'', JNull)]])]"

section \<open>Basic facts\<close>

lemma andThen_Inr [simp]: "andThen (Inr x) f = f x"
  by (simp add: andThen_def)

lemma andThen_Inl [simp]: "andThen (Inl e) f = Inl e"
  by (simp add: andThen_def)

lemma andThen_eq_Inr: "andThen m f = Inr y \<longleftrightarrow> (\<exists>x. m = Inr x \<and> f x = Inr y)"
  by (cases m) simp_all

lemma replicate_numeral: "replicate (numeral k) x = x # replicate (pred_numeral k) x"
  by (simp add: numeral_eq_Suc)

lemmas response_defs = header_def setHeader_def status_def sendJson_def res0_def

lemmas numeral_text = showInt_def pad_def digits.simps digit_def replicate_numeral

subsection \<open>The two exits of each handler\<close>

lemma ttcHandler_success:
  "ttcBody fetch decode = Inr b \<Longrightarrow>
   ttcHandler fetch decode =
     \<lparr>statusCode = 200,
      headers = [(''Cache-Control'', ''s-maxage=60, stale-while-revalidate=300''),
                 (''Access-Control-Allow-Origin'', ''*'')],
      body = stringify b\<rparr>"
  by (simp add: ttcHandler_def response_defs)

lemma ttcHandler_failure:
  "ttcBody fetch decode = Inl err \<Longrightarrow>
   ttcHandler fetch decode =
     \<lparr>statusCode = 500,
      headers = [(''Access-Control-Allow-Origin'', ''*'')],
      body = Some (JObj [(''error'', JStr (message err))])\<rparr>"
  by (simp add: ttcHandler_def response_defs)

lemma envcanHandler_success:
  "envcanBody fetch parse q = Inr b \<Longrightarrow>
   envcanHandler fetch parse q =
     \<lparr>statusCode = 200,
      headers = [(''Cache-Control'', ''s-maxage=120, stale-while-revalidate=600''),
                 (''Access-Control-Allow-Origin'', ''*'')],
      body = stringify b\<rparr>"
  by (simp add: envcanHandler_def response_defs)

lemma envcanHandler_failure:
  "envcanBody fetch parse q = Inl err \<Longrightarrow>
   envcanHandler fetch parse q =
     \<lparr>statusCode = 500,
      headers = [(''Access-Control-Allow-Origin'', ''*'')],
      body = Some (JObj [(''error'', JStr (message err))])\<rparr>"
  by (simp add: envcanHandler_def response_defs)

section \<open>Error envelope and headers\<close>

text \<open>
  Claim C6. When the upstream answers with a status outside 200..299, either handler
  responds 500 with the body \<^verbatim>\<open>{error: message}\<close>, where the message is
  \<^verbatim>\<open>TTC alerts fetch failed: <status> <statusText>\<close> for the transit service and
  \<^verbatim>\<open>EnvCan fetch failed: <status> <statusText>\<close> for the weather service; the status
  code is part of the message in decimal.
\<close>

theorem upstream_failure_gives_500:
  "(fetch TTC_ALERTS_FEED [(''User-Agent'', ''GeoffDash/1.0 (ttc-alerts)'')] = Inr r \<and> \<not> ok r \<longrightarrow>
      ttcHandler fetch decode =
        \<lparr>statusCode = 500,
         headers = [(''Access-Control-Allow-Origin'', ''*'')],
         body = Some (JObj [(''error'',
           JStr (''TTC alerts fetch failed: '' @ showInt (int (upStatus r)) @ '' '' @ statusText r))])\<rparr>) \<and>
   (envcanUrl (resolveRegion q) = Inr u \<and>
    fetch' u [(''User-Agent'', ''GeoffDash/1.0 (envcan-alerts)'')] = Inr r' \<and> \<not> ok r' \<longrightarrow>
      envcanHandler fetch' parse q =
        \<lparr>statusCode = 500,
         headers = [(''Access-Control-Allow-Origin'', ''*'')],
         body = Some (JObj [(''error'',
           JStr (''EnvCan fetch failed: '' @ showInt (int (upStatus r')) @ '' '' @ statusText r'))])\<rparr>)"
proof (intro conjI impI)
  assume "fetch TTC_ALERTS_FEED [(''User-Agent'', ''GeoffDash/1.0 (ttc-alerts)'')] = Inr r \<and> \<not> ok r"
  then have "ttcBody fetch decode =
      Inl (Error (''TTC alerts fetch failed: '' @ showInt (int (upStatus r)) @ '' '' @ statusText r))"
    by (simp add: ttcBody_def ttcFeed_def)
  then show "ttcHandler fetch decode =
        \<lparr>statusCode = 500,
         headers = [(''Access-Control-Allow-Origin'', ''*'')],
         body = Some (JObj [(''error'',
           JStr (''TTC alerts fetch failed: '' @ showInt (int (upStatus r)) @ '' '' @ statusText r))])\<rparr>"
    by (simp add: ttcHandler_failure)
next
  assume "envcanUrl (resolveRegion q) = Inr u \<and>
    fetch' u [(''User-Agent'', ''GeoffDash/1.0 (envcan-alerts)'')] = Inr r' \<and> \<not> ok r'"
  then have "envcanBody fetch' parse q =
      Inl (Error (''EnvCan fetch failed: '' @ showInt (int (upStatus r')) @ '' '' @ statusText r'))"
    by (simp add: envcanBody_def envcanFeed_def)
  then show "envcanHandler fetch' parse q =
        \<lparr>statusCode = 500,
         headers = [(''Access-Control-Allow-Origin'', ''*'')],
         body = Some (JObj [(''error'',
           JStr (''EnvCan fetch failed: '' @ showInt (int (upStatus r')) @ '' '' @ statusText r'))])\<rparr>"
    by (simp add: envcanHandler_failure)
qed

text \<open>An upstream 404 for either service, with the region omitted for the weather service.\<close>

theorem upstream_failure_gives_500_witness:
  "ttcHandler (answering 404 ''Not Found'' ()) (yielding \<lparr>entity = []\<rparr>) =
     \<lparr>statusCode = 500,
      headers = [(''Access-Control-Allow-Origin'', ''*'')],
      body = Some (JObj [(''error'', JStr ''TTC alerts fetch failed: 404 Not Found'')])\<rparr> \<and>
   envcanHandler (answering 404 ''Not Found'' []) (yielding (Obj [])) Undefined =
     \<lparr>statusCode = 500,
      headers = [(''Access-Control-Allow-Origin'', ''*'')],
      body = Some (JObj [(''error'', JStr ''EnvCan fetch failed: 404 Not Found'')])\<rparr>"
  using upstream_failure_gives_500
    [of "answering 404 ''Not Found'' ()" "\<lparr>upStatus = 404, statusText = ''Not Found'', payload = Inr ()\<rparr>"
        "yielding \<lparr>entity = []\<rparr>" Undefined "''https://weather.gc.ca/rss/battleboard/on61_e.xml''"
        "answering 404 ''Not Found'' []" "\<lparr>upStatus = 404, statusText = ''Not Found'', payload = Inr []\<rparr>"
        "yielding (Obj [])"]
  by (simp add: answering_def ok_def numeral_text
        envcanUrl_def resolveRegion_def or_else_def REGION_DEFAULT_def template_def)

text \<open>
  Claim C8. Every response of either handler, from the \<^verbatim>\<open>try\<close> block or from the
  \<^verbatim>\<open>catch\<close> block, carries \<^verbatim>\<open>Access-Control-Allow-Origin: *\<close>.
\<close>

theorem cors_header_on_every_response:
  "header (ttcHandler fetch decode) ''Access-Control-Allow-Origin'' = Some ''*'' \<and>
   header (envcanHandler fetch' parse q) ''Access-Control-Allow-Origin'' = Some ''*''"
proof
  show "header (ttcHandler fetch decode) ''Access-Control-Allow-Origin'' = Some ''*''"
    by (cases "ttcBody fetch decode")
       (simp_all add: ttcHandler_success ttcHandler_failure header_def)
  show "header (envcanHandler fetch' parse q) ''Access-Control-Allow-Origin'' = Some ''*''"
    by (cases "envcanBody fetch' parse q")
       (simp_all add: envcanHandler_success envcanHandler_failure header_def)
qed

text \<open>
  Claim C10. A 500 response, which only the \<^verbatim>\<open>catch\<close> block sends, has the cross-origin
  header as its only header set by the handler: no \<^verbatim>\<open>Cache-Control\<close>. The caching hint
  is set at the end of the \<^verbatim>\<open>try\<close> block, after the last step that can throw.
\<close>

theorem no_cache_header_on_failure:
  "(statusCode (ttcHandler fetch decode) = 500 \<longrightarrow>
      headers (ttcHandler fetch decode) = [(''Access-Control-Allow-Origin'', ''*'')] \<and>
      header (ttcHandler fetch decode) ''Cache-Control'' = None) \<and>
   (statusCode (envcanHandler fetch' parse q) = 500 \<longrightarrow>
      headers (envcanHandler fetch' parse q) = [(''Access-Control-Allow-Origin'', ''*'')] \<and>
      header (envcanHandler fetch' parse q) ''Cache-Control'' = None)"
  by (cases "ttcBody fetch decode"; cases "envcanBody fetch' parse q")
     (simp_all add: ttcHandler_success ttcHandler_failure
        envcanHandler_success envcanHandler_failure header_def)

text \<open>
  The network is down for the transit service; the weather feed has an entry whose
  summary text is the number 42.
\<close>

theorem no_cache_header_on_failure_witness:
  "statusCode (ttcHandler (unreachable :: unit fetch) (yielding \<lparr>entity = []\<rparr>)) = 500 \<and>
   headers (ttcHandler (unreachable :: unit fetch) (yielding \<lparr>entity = []\<rparr>)) =
     [(''Access-Control-Allow-Origin'', ''*'')] \<and>
   header (ttcHandler (unreachable :: unit fetch) (yielding \<lparr>entity = []\<rparr>)) ''Cache-Control'' = None \<and>
   statusCode (envcanHandler (answering 200 ''OK'' [])
     (yielding (Obj [(''feed'', Obj [(''entry'', Obj [(''summary'', Obj [(''#text'', Num 42)])])])]))
     Undefined) = 500 \<and>
   header (envcanHandler (answering 200 ''OK'' [])
     (yielding (Obj [(''feed'', Obj [(''entry'', Obj [(''summary'', Obj [(''#text'', Num 42)])])])]))
     Undefined) ''Cache-Control'' = None"
proof -
  have t: "statusCode (ttcHandler (unreachable :: unit fetch) (yielding \<lparr>entity = []\<rparr>)) = 500"
    by (simp add: ttcHandler_def ttcBody_def ttcFeed_def unreachable_def response_defs)
  have e: "statusCode (envcanHandler (answering 200 ''OK'' [])
     (yielding (Obj [(''feed'', Obj [(''entry'', Obj [(''summary'', Obj [(''#text'', Num 42)])])])]))
     Undefined) = 500"
    by (simp add: envcanHandler_def envcanBody_def envcanFeed_def envcanEntries_def rawEntries_def
          toEntries_def mapEntry_def entryId_def entryTitle_def entryUpdatedISO_def
          entrySummary_def entryLink_def trim_def
          answering_def yielding_def ok_def envcanUrl_def resolveRegion_def or_else_def
          REGION_DEFAULT_def template_def response_defs)
  show ?thesis
    using t e no_cache_header_on_failure
      [of "unreachable :: unit fetch" "yielding \<lparr>entity = []\<rparr>" "answering 200 ''OK'' []"
          "yielding (Obj [(''feed'', Obj [(''entry'', Obj [(''summary'', Obj [(''#text'', Num 42)])])])])"
          Undefined]
    by simp
qed

subsection \<open>Mapping with exceptions, serialisation\<close>

lemma mapM_Inr_iff: "mapM f xs = Inr ys \<longleftrightarrow> list_all2 (\<lambda>x y. f x = Inr y) xs ys"
proof (induction xs arbitrary: ys)
  case Nil
  show ?case by auto
next
  case (Cons x xs)
  show ?case
  proof (cases "f x")
    case (Inl e)
    then show ?thesis by (auto simp: list_all2_Cons1)
  next
    case (Inr y)
    then show ?thesis
      using Cons.IH by (cases "mapM f xs") (auto simp: list_all2_Cons1)
  qed
qed

lemma mapM_Inr_length: "mapM f xs = Inr ys \<Longrightarrow> length ys = length xs"
  by (simp add: mapM_Inr_iff list_all2_lengthD)

lemma mapM_succeeds_iff: "(\<exists>ys. mapM f xs = Inr ys) \<longleftrightarrow> (\<forall>x \<in> set xs. \<exists>y. f x = Inr y)"
proof (induction xs)
  case Nil
  show ?case by simp
next
  case (Cons x xs)
  show ?case
  proof (cases "f x")
    case (Inl e)
    then show ?thesis by auto
  next
    case (Inr y)
    then show ?thesis
      using Cons.IH by (cases "mapM f xs") auto
  qed
qed

lemma length_stringifyElems [simp]: "length (stringifyElems xs) = length xs"
  by (induction xs) simp_all

lemma stringify_eq_None [simp]: "stringify v = None \<longleftrightarrow> v = Undefined"
  by (cases v) simp_all

section \<open>The weather entries\<close>

subsection \<open>What a mapped entry is\<close>

lemma getProp_optProp: "\<not> nullish e \<Longrightarrow> getProp e k = Inr (optProp e k)"
  by (cases e) simp_all

lemma getProp_nullish: "nullish e \<Longrightarrow> \<exists>x. getProp e k = Inl x"
  by (cases e) simp_all

lemma entryId_Inr: "entryId e = Inr i \<Longrightarrow> \<not> nullish e"
  by (cases e) (simp_all add: entryId_def)

lemma mapEntry_not_nullish: "mapEntry e = Inr v \<Longrightarrow> \<not> nullish e"
  by (auto simp: mapEntry_def andThen_eq_Inr dest: entryId_Inr)

lemma entryId_eq:
  "\<not> nullish e \<Longrightarrow>
   entryId e = Inr (if truthy (optProp e ''id'') then optProp e ''id''
      else if truthy (optProp (optProp e ''link'') ''href'') then optProp (optProp e ''link'') ''href''
      else optProp e ''updated'')"
  by (simp add: entryId_def getProp_optProp)

lemma entryUpdatedISO_eq:
  "\<not> nullish e \<Longrightarrow>
   entryUpdatedISO e = Inr (or_else (or_else (optProp e ''updated'') (optProp e ''published'')) Null)"
  by (simp add: entryUpdatedISO_def getProp_optProp or_else_def)

lemma entryLink_eq:
  "\<not> nullish e \<Longrightarrow> entryLink e = Inr (or_else (optProp (optProp e ''link'') ''href'') Null)"
  by (simp add: entryLink_def getProp_optProp)

lemma entryTitle_Inr: "entryTitle e = Inr t \<Longrightarrow> \<exists>s. t = Str s"
  by (auto simp: entryTitle_def andThen_eq_Inr)

lemma optTrim_Inr: "optTrim x = Inr t \<Longrightarrow> t = Undefined \<or> (\<exists>s. t = Str s)"
  by (cases x) auto

lemma entrySummary_Inr: "entrySummary e = Inr t \<Longrightarrow> \<exists>s. t = Str s"
  by (auto simp: entrySummary_def andThen_eq_Inr or_else_def dest!: optTrim_Inr split: if_splits)

lemma mapEntry_Inr:
  assumes "mapEntry e = Inr v"
  shows "\<exists>t s. v = Obj [(''id'', if truthy (optProp e ''id'') then optProp e ''id''
              else if truthy (optProp (optProp e ''link'') ''href'') then optProp (optProp e ''link'') ''href''
              else optProp e ''updated''),
           (''title'', Str t),
           (''updatedISO'', or_else (or_else (optProp e ''updated'') (optProp e ''published'')) Null),
           (''summary'', Str s),
           (''link'', or_else (optProp (optProp e ''link'') ''href'') Null)]"
proof -
  have e: "\<not> nullish e" using assms by (rule mapEntry_not_nullish)
  from assms obtain t s where "entryTitle e = Inr t" "entrySummary e = Inr s"
      and v: "v = Obj [(''id'', if truthy (optProp e ''id'') then optProp e ''id''
              else if truthy (optProp (optProp e ''link'') ''href'') then optProp (optProp e ''link'') ''href''
              else optProp e ''updated''),
           (''title'', t),
           (''updatedISO'', or_else (or_else (optProp e ''updated'') (optProp e ''published'')) Null),
           (''summary'', s),
           (''link'', or_else (optProp (optProp e ''link'') ''href'') Null)]"
    unfolding mapEntry_def entryId_eq [OF e] entryUpdatedISO_eq [OF e] entryLink_eq [OF e]
    by (auto simp: andThen_eq_Inr)
  then show ?thesis
    by (auto dest!: entryTitle_Inr entrySummary_Inr)
qed

text \<open>
  The mapping of an entry throws in three cases only: the entry is \<^verbatim>\<open>null\<close> or
  \<^verbatim>\<open>undefined\<close>, its title cannot be printed, or its summary is not a string and has
  a \<^verbatim>\<open>#text\<close> that is neither missing nor a string.
\<close>

lemma optTrim_succeeds_iff: "(\<exists>t. optTrim x = Inr t) \<longleftrightarrow> nullish x \<or> isString x"
  by (cases x) simp_all

lemma mapEntry_succeeds_iff:
  "(\<exists>v. mapEntry e = Inr v) \<longleftrightarrow>
   \<not> nullish e \<and>
   (\<exists>s. toString (or_else (optProp e ''title'') (Str [])) = Inr s) \<and>
   (isString (optProp e ''summary'') \<or>
    nullish (optProp (optProp e ''summary'') ''#text'') \<or>
    isString (optProp (optProp e ''summary'') ''#text''))"
proof (cases "nullish e")
  case True
  then show ?thesis
    using mapEntry_not_nullish by blast
next
  case False
  have t: "(\<exists>t. entryTitle e = Inr t) \<longleftrightarrow>
           (\<exists>s. toString (or_else (optProp e ''title'') (Str [])) = Inr s)"
    by (auto simp: entryTitle_def getProp_optProp [OF False] andThen_eq_Inr)
  have s: "(\<exists>t. entrySummary e = Inr t) \<longleftrightarrow>
           (isString (optProp e ''summary'') \<or>
            nullish (optProp (optProp e ''summary'') ''#text'') \<or>
            isString (optProp (optProp e ''summary'') ''#text''))"
    using optTrim_succeeds_iff [of "optProp e ''summary''"]
      optTrim_succeeds_iff [of "optProp (optProp e ''summary'') ''#text''"]
    by (auto simp: entrySummary_def getProp_optProp [OF False] andThen_eq_Inr)
  have "(\<exists>v. mapEntry e = Inr v) \<longleftrightarrow> (\<exists>t. entryTitle e = Inr t) \<and> (\<exists>t. entrySummary e = Inr t)"
    unfolding mapEntry_def entryId_eq [OF False] entryUpdatedISO_eq [OF False] entryLink_eq [OF False]
    by (auto simp: andThen_eq_Inr)
  then show ?thesis
    using False by (simp add: t s)
qed

text \<open>
  Claim C5, amended. The \<^verbatim>\<open>id\<close> of a mapped weather entry is the first truthy of
  three values in this order: the provider id, else the \<^verbatim>\<open>href\<close> of the link, else
  the \<^verbatim>\<open>updated\<close> timestamp (which is taken as it is when the first two are falsy).
  A text is truthy when it is not empty; an id or \<^verbatim>\<open>href\<close> that the parser returns as
  the number 0 or as \<^verbatim>\<open>false\<close> is falsy and is passed over.
\<close>

theorem weather_id_fallback:
  assumes "mapEntry e = Inr v"
  shows "optProp v ''id'' =
     (if truthy (optProp e ''id'') then optProp e ''id''
      else if truthy (optProp (optProp e ''link'') ''href'') then optProp (optProp e ''link'') ''href''
      else optProp e ''updated'')"
  using mapEntry_Inr [OF assms] by auto

lemmas entry_defs = mapEntry_def entryId_def entryTitle_def entryUpdatedISO_def
  entrySummary_def entryLink_def or_else_def trim_def isSpace_def

lemmas envcan_defs = envcanHandler_def envcanBody_def envcanFeed_def envcanEntries_def
  rawEntries_def toEntries_def envcanUrl_def resolveRegion_def REGION_DEFAULT_def template_def
  answering_def servingOnly_def yielding_def ok_def

text \<open>
  Three entries: an id, an empty id with a permalink, and neither id nor permalink
  (the link has no \<^verbatim>\<open>href\<close>).
\<close>

theorem weather_id_fallback_witness:
  "mapEntry (Obj [(''id'', Str ''tag:1''), (''link'', Obj [(''href'', Str ''http://a/1'')]),
                  (''updated'', Str ''2024-01-05T10:00:00Z'')]) =
     Inr (Obj [(''id'', Str ''tag:1''), (''title'', Str []), (''updatedISO'', Str ''2024-01-05T10:00:00Z''),
               (''summary'', Str []), (''link'', Str ''http://a/1'')]) \<and>
   mapEntry (Obj [(''id'', Str []), (''link'', Obj [(''href'', Str ''http://a/1'')]),
                  (''updated'', Str ''2024-01-05T10:00:00Z'')]) =
     Inr (Obj [(''id'', Str ''http://a/1''), (''title'', Str []), (''updatedISO'', Str ''2024-01-05T10:00:00Z''),
               (''summary'', Str []), (''link'', Str ''http://a/1'')]) \<and>
   mapEntry (Obj [(''link'', Obj [(''rel'', Str ''alternate'')]),
                  (''updated'', Str ''2024-01-05T10:00:00Z'')]) =
     Inr (Obj [(''id'', Str ''2024-01-05T10:00:00Z''), (''title'', Str []), (''updatedISO'', Str ''2024-01-05T10:00:00Z''),
               (''summary'', Str []), (''link'', Null)])"
proof -
  let ?e1 = "Obj [(''id'', Str ''tag:1''), (''link'', Obj [(''href'', Str ''http://a/1'')]),
                  (''updated'', Str ''2024-01-05T10:00:00Z'')]"
  let ?e2 = "Obj [(''id'', Str []), (''link'', Obj [(''href'', Str ''http://a/1'')]),
                  (''updated'', Str ''2024-01-05T10:00:00Z'')]"
  let ?e3 = "Obj [(''link'', Obj [(''rel'', Str ''alternate'')]),
                  (''updated'', Str ''2024-01-05T10:00:00Z'')]"
  obtain v1 where m1: "mapEntry ?e1 = Inr v1" by (simp add: entry_defs)
  obtain v2 where m2: "mapEntry ?e2 = Inr v2" by (simp add: entry_defs)
  obtain v3 where m3: "mapEntry ?e3 = Inr v3" by (simp add: entry_defs)
  have "optProp v1 ''id'' = Str ''tag:1''"
    using weather_id_fallback [OF m1] by simp
  moreover have "optProp v2 ''id'' = Str ''http://a/1''"
    using weather_id_fallback [OF m2] by simp
  moreover have "optProp v3 ''id'' = Str ''2024-01-05T10:00:00Z''"
    using weather_id_fallback [OF m3] by simp
  ultimately show ?thesis
    using m1 m2 m3 by (simp add: entry_defs)
qed

text \<open>
  Claim C5 as first stated takes the first non-empty of the three. The entries
  \<^verbatim>\<open><entry><id>0</id><link href="http://a/1"/>...</entry>\<close> and the same with
  \<^verbatim>\<open><id>false</id>\<close> have a provider id that is not empty; the parser returns it as
  the number 0 and as \<^verbatim>\<open>false\<close>, \<^verbatim>\<open>||\<close> passes it over, and the \<^verbatim>\<open>id\<close> sent is
  the permalink. The handler uses \<^verbatim>\<open>||\<close> for every fallback of the entry, the title
  included.
\<close>

theorem weather_id_counterexample:
  "mapEntry (Obj [(''id'', Num 0), (''link'', Obj [(''href'', Str ''http://a/1'')]),
                  (''updated'', Str ''2024-01-05T10:00:00Z'')]) =
     Inr (Obj [(''id'', Str ''http://a/1''), (''title'', Str []), (''updatedISO'', Str ''2024-01-05T10:00:00Z''),
               (''summary'', Str []), (''link'', Str ''http://a/1'')]) \<and>
   mapEntry (Obj [(''id'', Bool False), (''link'', Obj [(''href'', Str ''http://a/1'')]),
                  (''updated'', Str ''2024-01-05T10:00:00Z'')]) =
     Inr (Obj [(''id'', Str ''http://a/1''), (''title'', Str []), (''updatedISO'', Str ''2024-01-05T10:00:00Z''),
               (''summary'', Str []), (''link'', Str ''http://a/1'')])"
  by (simp add: entry_defs)

text \<open>
  Claim C9. There are entries whose mapped \<^verbatim>\<open>id\<close> is \<^verbatim>\<open>undefined\<close>, so that the
  serialised record has no \<^verbatim>\<open>id\<close> key: every entry that maps, has no truthy id and
  no truthy link \<^verbatim>\<open>href\<close>, and lacks \<^verbatim>\<open>updated\<close>, is sent with the four keys
  \<^verbatim>\<open>title\<close>, \<^verbatim>\<open>updatedISO\<close>, \<^verbatim>\<open>summary\<close>, \<^verbatim>\<open>link\<close> only.
\<close>

theorem weather_id_dropped_when_all_missing:
  assumes "mapEntry e = Inr v"
    and "\<not> truthy (optProp e ''id'')"
    and "\<not> truthy (optProp (optProp e ''link'') ''href'')"
    and "optProp e ''updated'' = Undefined"
  shows "optProp v ''id'' = Undefined \<and>
    (\<exists>t u s. stringify v =
       Some (JObj [(''title'', JStr t), (''updatedISO'', u), (''summary'', JStr s), (''link'', JNull)]))"
proof -
  from mapEntry_Inr [OF assms(1)] obtain t s where
    v: "v = Obj [(''id'', Undefined), (''title'', Str t),
           (''updatedISO'', or_else (optProp e ''published'') Null),
           (''summary'', Str s), (''link'', Null)]"
    using assms(2-4) by (auto simp: or_else_def)
  have "stringify (or_else (optProp e ''published'') Null) \<noteq> None"
    by (auto simp: or_else_def)
  then obtain u where "stringify (or_else (optProp e ''published'') Null) = Some u"
    by blast
  then show ?thesis
    by (simp add: v)
qed

text \<open>
  Such an entry, \<^verbatim>\<open><entry><title> Winter Storm Watch </title><link rel="alternate"/></entry>\<close>,
  and the 200 response that carries it without an \<^verbatim>\<open>id\<close>.
\<close>

theorem weather_id_dropped_when_all_missing_witness:
  "mapEntry (Obj [(''title'', Str '' Winter Storm Watch ''), (''link'', Obj [(''rel'', Str ''alternate'')])]) =
     Inr (Obj [(''id'', Undefined), (''title'', Str ''Winter Storm Watch''), (''updatedISO'', Null),
               (''summary'', Str []), (''link'', Null)]) \<and>
   envcanHandler (answering 200 ''OK'' [])
     (yielding (Obj [(''feed'', Obj [(''entry'',
        Obj [(''title'', Str '' Winter Storm Watch ''), (''link'', Obj [(''rel'', Str ''alternate'')])])])]))
     Undefined =
     \<lparr>statusCode = 200,
      headers = [(''Cache-Control'', ''s-maxage=120, stale-while-revalidate=600''),
                 (''Access-Control-Allow-Origin'', ''*'')],
      body = Some (JObj [(''region'', JStr ''on61''),
        (''entries'', JArr [JObj [(''title'', JStr ''Winter Storm Watch''), (''updatedISO'', JNull),
                                  (''summary'', JStr []), (''link'', JNull)]])])\<rparr>"
proof -
  let ?e = "Obj [(''title'', Str '' Winter Storm Watch ''), (''link'', Obj [(''rel'', Str ''alternate'')])]"
  let ?v = "Obj [(''id'', Undefined), (''title'', Str ''Winter Storm Watch''), (''updatedISO'', Null),
               (''summary'', Str []), (''link'', Null)]"
  have m: "mapEntry ?e = Inr ?v" by (simp add: entry_defs)
  have "optProp ?v ''id'' = Undefined \<and>
    (\<exists>t u s. stringify ?v =
       Some (JObj [(''title'', JStr t), (''updatedISO'', u), (''summary'', JStr s), (''link'', JNull)]))"
    by (rule weather_id_dropped_when_all_missing [OF m]) simp_all
  then show ?thesis
    using m by (simp add: envcan_defs or_else_def response_defs)
qed

section \<open>The weather handler as a whole\<close>

lemma resolveRegion_default:
  "q = Undefined \<or> q = Str [] \<Longrightarrow> resolveRegion q = Str ''on61''"
  by (auto simp: resolveRegion_def or_else_def REGION_DEFAULT_def)

lemma resolveRegion_truthy: "truthy (resolveRegion q)"
  by (simp add: resolveRegion_def or_else_def REGION_DEFAULT_def)

lemma envcanBody_Inr:
  "envcanBody fetch parse q = Inr b \<longleftrightarrow>
   (\<exists>feed entries. envcanFeed fetch parse (resolveRegion q) = Inr feed \<and>
      envcanEntries feed = Inr entries \<and>
      b = Obj [(''region'', resolveRegion q), (''entries'', Arr entries)])"
  by (auto simp: envcanBody_def Let_def andThen_eq_Inr)

lemma envcanHandler_200:
  "statusCode (envcanHandler fetch parse q) = 200 \<longleftrightarrow> (\<exists>b. envcanBody fetch parse q = Inr b)"
  by (cases "envcanBody fetch parse q") (simp_all add: envcanHandler_success envcanHandler_failure)

lemma envcanFeed_cong:
  "envcanUrl region = Inr u \<Longrightarrow> fetch2 u = fetch u \<Longrightarrow>
   envcanFeed fetch2 parse region = envcanFeed fetch parse region"
  by (simp add: envcanFeed_def)

text \<open>
  Claim C7. When the \<^verbatim>\<open>region\<close> query parameter is absent or empty, the region is the
  default \<^verbatim>\<open>on61\<close>, the upstream URL is built from it, the handler answers as for an
  explicit \<^verbatim>\<open>region=on61\<close>, and its answer depends on the network only through what
  that URL returns. A 200 response carries the resolved region, default or not, in its
  \<^verbatim>\<open>region\<close> field.
\<close>

theorem default_region_when_absent_or_empty:
  "(q = Undefined \<or> q = Str [] \<longrightarrow>
      resolveRegion q = Str REGION_DEFAULT \<and>
      envcanUrl (resolveRegion q) = Inr ''https://weather.gc.ca/rss/battleboard/on61_e.xml'' \<and>
      envcanHandler fetch parse q = envcanHandler fetch parse (Str ''on61'') \<and>
      (\<forall>fetch2. fetch2 ''https://weather.gc.ca/rss/battleboard/on61_e.xml'' =
                 fetch ''https://weather.gc.ca/rss/battleboard/on61_e.xml'' \<longrightarrow>
         envcanHandler fetch2 parse q = envcanHandler fetch parse q)) \<and>
   (statusCode (envcanHandler fetch parse q) = 200 \<longrightarrow>
      (\<exists>region es. stringify (resolveRegion q) = Some region \<and>
         body (envcanHandler fetch parse q) =
           Some (JObj [(''region'', region), (''entries'', JArr es)])))"
proof (intro conjI impI allI)
  assume q: "q = Undefined \<or> q = Str []"
  show r: "resolveRegion q = Str REGION_DEFAULT"
    using q by (auto simp: resolveRegion_def or_else_def)
  show u: "envcanUrl (resolveRegion q) = Inr ''https://weather.gc.ca/rss/battleboard/on61_e.xml''"
    by (simp add: r envcanUrl_def template_def REGION_DEFAULT_def)
  have "resolveRegion (Str ''on61'') = Str REGION_DEFAULT"
    by (simp add: resolveRegion_def or_else_def REGION_DEFAULT_def)
  then show "envcanHandler fetch parse q = envcanHandler fetch parse (Str ''on61'')"
    by (simp add: envcanHandler_def envcanBody_def r)
  fix fetch2 :: "string fetch"
  assume "fetch2 ''https://weather.gc.ca/rss/battleboard/on61_e.xml'' =
          fetch ''https://weather.gc.ca/rss/battleboard/on61_e.xml''"
  then have "envcanFeed fetch2 parse (resolveRegion q) = envcanFeed fetch parse (resolveRegion q)"
    by (rule envcanFeed_cong [OF u])
  then show "envcanHandler fetch2 parse q = envcanHandler fetch parse q"
    by (simp add: envcanHandler_def envcanBody_def)
next
  assume "statusCode (envcanHandler fetch parse q) = 200"
  then obtain b where b: "envcanBody fetch parse q = Inr b"
    by (auto simp: envcanHandler_200)
  then obtain entries where
    "b = Obj [(''region'', resolveRegion q), (''entries'', Arr entries)]"
    by (auto simp: envcanBody_Inr)
  moreover obtain region where "stringify (resolveRegion q) = Some region"
    using resolveRegion_truthy [of q] by (cases "resolveRegion q") auto
  ultimately show "\<exists>region es. stringify (resolveRegion q) = Some region \<and>
         body (envcanHandler fetch parse q) =
           Some (JObj [(''region'', region), (''entries'', JArr es)])"
    by (simp add: envcanHandler_success [OF b])
qed

text \<open>
  An upstream that serves the Toronto feed only: without a region and with an empty one
  the handler answers 200 with \<^verbatim>\<open>region: on61\<close>; with another region it gets a 404
  and answers 500.
\<close>

theorem default_region_when_absent_or_empty_witness:
  "envcanHandler (servingOnly ''https://weather.gc.ca/rss/battleboard/on61_e.xml'' [])
     (yielding (Obj [(''feed'', Obj [(''title'', Str ''Alerts'')])])) Undefined =
     \<lparr>statusCode = 200,
      headers = [(''Cache-Control'', ''s-maxage=120, stale-while-revalidate=600''),
                 (''Access-Control-Allow-Origin'', ''*'')],
      body = Some (JObj [(''region'', JStr ''on61''), (''entries'', JArr [])])\<rparr> \<and>
   envcanHandler (servingOnly ''https://weather.gc.ca/rss/battleboard/on61_e.xml'' [])
     (yielding (Obj [(''feed'', Obj [(''title'', Str ''Alerts'')])])) (Str []) =
     \<lparr>statusCode = 200,
      headers = [(''Cache-Control'', ''s-maxage=120, stale-while-revalidate=600''),
                 (''Access-Control-Allow-Origin'', ''*'')],
      body = Some (JObj [(''region'', JStr ''on61''), (''entries'', JArr [])])\<rparr> \<and>
   statusCode (envcanHandler (servingOnly ''https://weather.gc.ca/rss/battleboard/on61_e.xml'' [])
     (yielding (Obj [(''feed'', Obj [(''title'', Str ''Alerts'')])])) (Str ''qc147'')) = 500"
proof -
  let ?fetch = "servingOnly ''https://weather.gc.ca/rss/battleboard/on61_e.xml'' [] :: string fetch"
  let ?parse = "yielding (Obj [(''feed'', Obj [(''title'', Str ''Alerts'')])]) :: string \<Rightarrow> error + jsval"
  have explicit: "envcanHandler ?fetch ?parse (Str ''on61'') =
     \<lparr>statusCode = 200,
      headers = [(''Cache-Control'', ''s-maxage=120, stale-while-revalidate=600''),
                 (''Access-Control-Allow-Origin'', ''*'')],
      body = Some (JObj [(''region'', JStr ''on61''), (''entries'', JArr [])])\<rparr>"
    by (simp add: envcan_defs or_else_def response_defs)
  have other: "statusCode (envcanHandler ?fetch ?parse (Str ''qc147'')) = 500"
    by (simp add: envcan_defs or_else_def response_defs)
  show ?thesis
    using explicit other
      default_region_when_absent_or_empty [of Undefined ?fetch ?parse]
      default_region_when_absent_or_empty [of "Str []" ?fetch ?parse]
    by simp
qed

lemma envcanHandler_entries:
  assumes "envcanFeed fetch parse (resolveRegion q) = Inr feed"
    and "envcanEntries feed = Inr vs"
  shows "statusCode (envcanHandler fetch parse q) = 200 \<and>
         entriesOf (envcanHandler fetch parse q) = Some (stringifyElems vs)"
proof -
  have b: "envcanBody fetch parse q = Inr (Obj [(''region'', resolveRegion q), (''entries'', Arr vs)])"
    using assms by (simp add: envcanBody_Inr)
  obtain region where "stringify (resolveRegion q) = Some region"
    using resolveRegion_truthy [of q] by (cases "resolveRegion q") auto
  then show ?thesis
    by (simp add: envcanHandler_success [OF b] entriesOf_def)
qed

text \<open>
  Numeric text elsewhere in an entry does not throw: a numeric title is printed, and a
  numeric summary without attributes has no \<^verbatim>\<open>#text\<close> and maps to the empty string.
\<close>

lemma numeric_text_elsewhere:
  "mapEntry (Obj [(''title'', Num 42), (''summary'', Num 42)]) =
     Inr (Obj [(''id'', Undefined), (''title'', Str ''42''), (''updatedISO'', Null),
               (''summary'', Str []), (''link'', Null)])"
  by (simp add: entry_defs numeral_text)

text \<open>
  When no mapping throws, the three shapes of the entry node give the array that is
  expected of them: empty for an absent (or falsy) node, the one mapped element for a
  single value, one mapped element per raw entry, in order, for a sequence.
\<close>

lemma entries_normalised_when_mapped:
  assumes "envcanFeed fetch parse (resolveRegion q) = Inr feed"
  shows
    "(\<not> truthy (rawEntries feed) \<longrightarrow>
        statusCode (envcanHandler fetch parse q) = 200 \<and>
        entriesOf (envcanHandler fetch parse q) = Some []) \<and>
     (\<forall>v. \<not> isArray (rawEntries feed) \<and> truthy (rawEntries feed) \<and>
          mapEntry (rawEntries feed) = Inr v \<longrightarrow>
        statusCode (envcanHandler fetch parse q) = 200 \<and>
        entriesOf (envcanHandler fetch parse q) = Some (stringifyElems [v])) \<and>
     (\<forall>xs vs. rawEntries feed = Arr xs \<and> mapM mapEntry xs = Inr vs \<longrightarrow>
        statusCode (envcanHandler fetch parse q) = 200 \<and>
        entriesOf (envcanHandler fetch parse q) = Some (stringifyElems vs) \<and>
        length (stringifyElems vs) = length xs \<and>
        list_all2 (\<lambda>x v. mapEntry x = Inr v) xs vs) \<and>
     (statusCode (envcanHandler fetch parse q) = 200 \<longrightarrow>
        (\<exists>es. entriesOf (envcanHandler fetch parse q) = Some es \<and>
           length es = length (toEntries (rawEntries feed))))"
proof (intro conjI impI allI)
  assume "statusCode (envcanHandler fetch parse q) = 200"
  then obtain vs where vs: "envcanEntries feed = Inr vs"
    using assms by (auto simp: envcanHandler_200 envcanBody_Inr)
  then have "length (stringifyElems vs) = length (toEntries (rawEntries feed))"
    by (simp add: envcanEntries_def mapM_Inr_length)
  with envcanHandler_entries [OF assms vs]
  show "\<exists>es. entriesOf (envcanHandler fetch parse q) = Some es \<and>
           length es = length (toEntries (rawEntries feed))"
    by simp
next
  assume "\<not> truthy (rawEntries feed)"
  then have "envcanEntries feed = Inr []"
    by (cases "rawEntries feed") (simp_all add: envcanEntries_def toEntries_def)
  from envcanHandler_entries [OF assms this]
  show "statusCode (envcanHandler fetch parse q) = 200"
    and "entriesOf (envcanHandler fetch parse q) = Some []"
    by simp_all
next
  fix v
  assume "\<not> isArray (rawEntries feed) \<and> truthy (rawEntries feed) \<and>
          mapEntry (rawEntries feed) = Inr v"
  then have "envcanEntries feed = Inr [v]"
    by (cases "rawEntries feed") (auto simp: envcanEntries_def toEntries_def)
  from envcanHandler_entries [OF assms this]
  show "statusCode (envcanHandler fetch parse q) = 200"
    and "entriesOf (envcanHandler fetch parse q) = Some (stringifyElems [v])"
    by simp_all
next
  fix xs vs
  assume a: "rawEntries feed = Arr xs \<and> mapM mapEntry xs = Inr vs"
  then have "envcanEntries feed = Inr vs"
    by (simp add: envcanEntries_def toEntries_def)
  from envcanHandler_entries [OF assms this]
  show "statusCode (envcanHandler fetch parse q) = 200"
    and "entriesOf (envcanHandler fetch parse q) = Some (stringifyElems vs)"
    by simp_all
  show "length (stringifyElems vs) = length xs"
    using a by (auto dest: mapM_Inr_length)
  show "list_all2 (\<lambda>x v. mapEntry x = Inr v) xs vs"
    using a by (simp add: mapM_Inr_iff)
qed

text \<open>
  Claim C1 says that for every parsed feed the response has \<^verbatim>\<open>entries\<close> as an array,
  with exactly one mapped element when the entry node is a single object. The handler
  breaks this on the feed
  \<^verbatim>\<open><feed><entry><title>Heat Warning</title><summary type="html">42</summary></entry></feed>\<close>,
  which parses to a single entry object whose summary is \<^verbatim>\<open>{'#text': 42, type: 'html'}\<close>.
  The summary is not a string, its \<^verbatim>\<open>#text\<close> is the number 42, and \<^verbatim>\<open>?.trim()\<close> is
  called on the number and throws. The response is the 500 envelope \<^verbatim>\<open>{error: ...}\<close>,
  with no \<^verbatim>\<open>entries\<close>. The expression guards its result for a text (\<^verbatim>\<open>?.\<close> before,
  \<^verbatim>\<open>|| ''\<close> after) and the title beside it is coerced with \<^verbatim>\<open>toString()\<close>; the
  numeric \<^verbatim>\<open>#text\<close> is the case it misses.
\<close>

theorem numeric_summary_text_gives_500:
  "statusCode (envcanHandler (answering 200 ''OK'' [])
     (yielding (Obj [(''feed'', Obj [(''entry'',
        Obj [(''title'', Str ''Heat Warning''),
             (''summary'', Obj [(''#text'', Num 42), (''type'', Str ''html'')])])])]))
     Undefined) = 500 \<and>
   entriesOf (envcanHandler (answering 200 ''OK'' [])
     (yielding (Obj [(''feed'', Obj [(''entry'',
        Obj [(''title'', Str ''Heat Warning''),
             (''summary'', Obj [(''#text'', Num 42), (''type'', Str ''html'')])])])]))
     Undefined) = None"
  by (simp add: envcan_defs entry_defs response_defs entriesOf_def)

section \<open>The transit alerts\<close>

subsection \<open>What a mapped alert is\<close>

lemma isoOrNull_Inr:
  "isoOrNull t = Inr x \<Longrightarrow> x = Str (formatISO (Number t * 1000))"
  by (auto simp: isoOrNull_def truthyLong_def toISOString_def andThen_eq_Inr split: if_splits)

lemma mapPeriod_Inr:
  "mapPeriod p = Inr v \<Longrightarrow>
   v = Obj [(''start'', Str (formatISO (Number (readTime (start p)) * 1000))),
            (''end'', Str (formatISO (Number (readTime (end' p)) * 1000)))]"
  by (auto simp: mapPeriod_def andThen_eq_Inr dest!: isoOrNull_Inr)

lemma pickText_cases:
  "pickText None = Undefined"
  "pickText (Some \<lparr>translation = []\<rparr>) = Undefined"
  "pickText (Some \<lparr>translation = t # rest\<rparr>) = (if text' t = [] then Undefined else Str (text' t))"
  by (simp_all add: pickText_def)

lemma mapAlert_Inr:
  "mapAlert e = Inr v \<longleftrightarrow>
   (\<exists>a periods. alert e = Some a \<and> mapM mapPeriod (activePeriod a) = Inr periods \<and>
      v = Obj [(''id'', Str (id' e)),
               (''header'', or_else (pickText (headerText a)) Null),
               (''description'', or_else (pickText (descriptionText a)) Null),
               (''url'', or_else (pickText (url a)) Null),
               (''cause'', coalesce (readEnum UNKNOWN_CAUSE (cause a)) Null),
               (''effect'', coalesce (readEnum UNKNOWN_EFFECT (effect a)) Null),
               (''severity'', coalesce (readSeverity (severity a)) Null),
               (''activePeriods'', Arr periods),
               (''informed'', Arr (map mapInformed (informedEntity a)))])"
  by (auto simp: mapAlert_def andThen_eq_Inr split: option.splits)

text \<open>
  The mapping of an entity that has an alert throws in one case only: a bound of an
  active period lies beyond the range of \<^verbatim>\<open>Date\<close> (8.64e12 seconds).
\<close>

lemma isoOrNull_succeeds_iff:
  "(\<exists>x. isoOrNull (readTime t) = Inr x) \<longleftrightarrow> (\<forall>s. t = Some s \<longrightarrow> s \<le> 8640000000000)"
  by (cases t) (auto simp: isoOrNull_def readTime_def truthyLong_def toISOString_def)

lemma mapPeriod_succeeds_iff:
  "(\<exists>v. mapPeriod p = Inr v) \<longleftrightarrow>
   (\<forall>s. start p = Some s \<or> end' p = Some s \<longrightarrow> s \<le> 8640000000000)"
proof -
  have "(\<exists>v. mapPeriod p = Inr v) \<longleftrightarrow>
        (\<exists>x. isoOrNull (readTime (start p)) = Inr x) \<and> (\<exists>y. isoOrNull (readTime (end' p)) = Inr y)"
    by (auto simp: mapPeriod_def andThen_eq_Inr)
  then show ?thesis
    by (auto simp: isoOrNull_succeeds_iff)
qed

lemma mapAlert_succeeds_iff:
  "(\<exists>v. mapAlert e = Inr v) \<longleftrightarrow>
   (\<exists>a. alert e = Some a \<and>
      (\<forall>p \<in> set (activePeriod a). \<forall>s. start p = Some s \<or> end' p = Some s \<longrightarrow> s \<le> 8640000000000))"
proof -
  have "(\<exists>v. mapAlert e = Inr v) \<longleftrightarrow>
        (\<exists>a. alert e = Some a \<and> (\<exists>ps. mapM mapPeriod (activePeriod a) = Inr ps))"
    by (auto simp: mapAlert_Inr)
  then show ?thesis
    by (simp only: mapM_succeeds_iff mapPeriod_succeeds_iff)
qed

text \<open>
  A bound of an active period is never sent as \<^verbatim>\<open>null\<close>: the test \<^verbatim>\<open>p.end ? ... : null\<close>
  is applied to a \<^verbatim>\<open>Long\<close> object and always takes the first branch.
\<close>

lemma period_bounds_are_strings:
  "mapPeriod p = Inr v \<Longrightarrow>
   \<exists>s e. stringify v = Some (JObj [(''start'', JStr s), (''end'', JStr e)])"
  by (auto dest!: mapPeriod_Inr)

lemma formatISO_example: "formatISO 1700000000000 = ''2023-11-14T22:13:20.000Z''"
  unfolding formatISO_def civil_def Let_def yearText_def
  by (simp add: numeral_text)

lemma formatISO_epoch: "formatISO 0 = ''1970-01-01T00:00:00.000Z''"
  unfolding formatISO_def civil_def Let_def yearText_def
  by (simp add: numeral_text)

lemmas alert_defs = mapAlert_def mapPeriod_def isoOrNull_def truthyLong_def readTime_def
  toISOString_def pickText_def mapInformed_def or_else_def coalesce_def
  readEnum_def readString_def readSeverity_def UNKNOWN_CAUSE_def UNKNOWN_EFFECT_def
  formatISO_example formatISO_epoch

lemma mapAlert_lineClosure:
  "mapAlert lineClosure =
     Inr (Obj [(''id'', Str ''a1''),
               (''header'', Str ''Line closure''),
               (''description'', Null),
               (''url'', Null),
               (''cause'', Num 1),
               (''effect'', Num 1),
               (''severity'', Null),
               (''activePeriods'', Arr [Obj [(''start'', Str ''2023-11-14T22:13:20.000Z''),
                                             (''end'', Str ''1970-01-01T00:00:00.000Z'')]]),
               (''informed'', Arr [Obj [(''routeId'', Str ''501''), (''stopId'', Str []), (''tripId'', Null)]])])"
  by (simp add: lineClosure_def alert_defs)

text \<open>
  Claim C4 says that a bound of an active period which the feed omits, or gives as zero,
  is sent as an explicit \<^verbatim>\<open>null\<close>, so that a period with a start only is
  \<^verbatim>\<open>{start: <ISO instant>, end: null}\<close>, and that an absent \<^verbatim>\<open>cause\<close> or \<^verbatim>\<open>effect\<close> is
  sent as \<^verbatim>\<open>null\<close>. The handler does not do that. For the period that starts at
  1700000000 and has no end, the end is read as the \<^verbatim>\<open>Long\<close> zero of the prototype, the
  test \<^verbatim>\<open>p.end ? ... : null\<close> succeeds on it, and the end is sent as the epoch; a
  start given as zero is sent as the epoch as well. The alert of the scenario, which
  has no cause, is sent with \<^verbatim>\<open>cause: 1\<close>.
\<close>

theorem omitted_bound_is_sent_as_epoch:
  "mapPeriod \<lparr>start = Some 1700000000, end' = None\<rparr> =
     Inr (Obj [(''start'', Str ''2023-11-14T22:13:20.000Z''),
               (''end'', Str ''1970-01-01T00:00:00.000Z'')]) \<and>
   mapPeriod \<lparr>start = Some 0, end' = Some 1700000000\<rparr> =
     Inr (Obj [(''start'', Str ''1970-01-01T00:00:00.000Z''),
               (''end'', Str ''2023-11-14T22:13:20.000Z'')]) \<and>
   (case mapAlert lineClosure of Inl x \<Rightarrow> None | Inr v \<Rightarrow> stringify v) = Some lineClosureJson"
  by (simp add: mapAlert_lineClosure lineClosureJson_def)
     (simp add: alert_defs)

text \<open>
  Claim C3. Each of \<^verbatim>\<open>header\<close>, \<^verbatim>\<open>description\<close> and \<^verbatim>\<open>url\<close> of a mapped alert is the
  text of the first translation of its translated string, whatever translations follow
  it; it is \<^verbatim>\<open>null\<close> when there is no translated string, no translation, or the
  first translation has an empty text.
\<close>

theorem text_is_first_translation:
  assumes "mapAlert e = Inr v" and "alert e = Some a"
  shows
    "(\<forall>t rest. headerText a = Some \<lparr>translation = t # rest\<rparr> \<longrightarrow>
        optProp v ''header'' = (if text' t = [] then Null else Str (text' t))) \<and>
     (headerText a = None \<or> headerText a = Some \<lparr>translation = []\<rparr> \<longrightarrow>
        optProp v ''header'' = Null) \<and>
     (\<forall>t rest. descriptionText a = Some \<lparr>translation = t # rest\<rparr> \<longrightarrow>
        optProp v ''description'' = (if text' t = [] then Null else Str (text' t))) \<and>
     (descriptionText a = None \<or> descriptionText a = Some \<lparr>translation = []\<rparr> \<longrightarrow>
        optProp v ''description'' = Null) \<and>
     (\<forall>t rest. url a = Some \<lparr>translation = t # rest\<rparr> \<longrightarrow>
        optProp v ''url'' = (if text' t = [] then Null else Str (text' t))) \<and>
     (url a = None \<or> url a = Some \<lparr>translation = []\<rparr> \<longrightarrow>
        optProp v ''url'' = Null)"
proof -
  have field: "(\<forall>t rest. tx = Some \<lparr>translation = t # rest\<rparr> \<longrightarrow>
        or_else (pickText tx) Null = (if text' t = [] then Null else Str (text' t))) \<and>
     (tx = None \<or> tx = Some \<lparr>translation = []\<rparr> \<longrightarrow> or_else (pickText tx) Null = Null)" for tx
    by (auto simp: pickText_cases or_else_def)
  from assms obtain periods where
    v: "v = Obj [(''id'', Str (id' e)),
               (''header'', or_else (pickText (headerText a)) Null),
               (''description'', or_else (pickText (descriptionText a)) Null),
               (''url'', or_else (pickText (url a)) Null),
               (''cause'', coalesce (readEnum UNKNOWN_CAUSE (cause a)) Null),
               (''effect'', coalesce (readEnum UNKNOWN_EFFECT (effect a)) Null),
               (''severity'', coalesce (readSeverity (severity a)) Null),
               (''activePeriods'', Arr periods),
               (''informed'', Arr (map mapInformed (informedEntity a)))]"
    by (auto simp: mapAlert_Inr)
  have "optProp v ''header'' = or_else (pickText (headerText a)) Null"
    "optProp v ''description'' = or_else (pickText (descriptionText a)) Null"
    "optProp v ''url'' = or_else (pickText (url a)) Null"
    by (simp_all add: v)
  then show ?thesis
    using field [of "headerText a"] field [of "descriptionText a"] field [of "url a"]
    by simp
qed

text \<open>
  The header of the scenario has an English and a French translation, its description
  has no translation and its \<^verbatim>\<open>url\<close> is missing.
\<close>

theorem text_is_first_translation_witness:
  "(case mapAlert lineClosure of
      Inl x \<Rightarrow> []
    | Inr v \<Rightarrow> [optProp v ''header'', optProp v ''description'', optProp v ''url'']) =
   [Str ''Line closure'', Null, Null]"
proof -
  obtain v where m: "mapAlert lineClosure = Inr v"
    by (simp add: mapAlert_lineClosure)
  have a: "alert lineClosure = Some
        \<lparr>headerText = Some \<lparr>translation = [\<lparr>text' = ''Line closure''\<rparr>, \<lparr>text' = ''Fermeture de ligne''\<rparr>]\<rparr>,
         descriptionText = Some \<lparr>translation = []\<rparr>,
         url = None,
         cause = None,
         effect = Some 1,
         severity = None,
         activePeriod = [\<lparr>start = Some 1700000000, end' = None\<rparr>],
         informedEntity = [\<lparr>routeId = Some ''501'', stopId = None, trip = None\<rparr>]\<rparr>"
    by (simp add: lineClosure_def)
  have "optProp v ''header'' = Str ''Line closure'' \<and> optProp v ''description'' = Null \<and>
        optProp v ''url'' = Null"
    using text_is_first_translation [OF m a] by simp
  then show ?thesis
    by (simp add: m)
qed

section \<open>The transit handler as a whole\<close>

lemma mapAlert_defined: "mapAlert e = Inr v \<Longrightarrow> v \<noteq> Undefined"
  by (auto simp: mapAlert_Inr)

lemma list_all2_stringify:
  "list_all2 (\<lambda>x v. f x = Inr v) xs vs \<Longrightarrow> (\<And>x v. f x = Inr v \<Longrightarrow> v \<noteq> Undefined) \<Longrightarrow>
   list_all2 (\<lambda>x j. \<exists>v. f x = Inr v \<and> stringify v = Some j) xs (stringifyElems vs)"
proof (induction rule: list_all2_induct)
  case Nil
  show ?case by simp
next
  case (Cons x xs v vs)
  from Cons.hyps(1) Cons.prems have "v \<noteq> Undefined" by blast
  then obtain j where "stringify v = Some j" by (cases v) auto
  then show ?case
    using Cons by auto
qed

lemma ttcBody_Inr:
  "ttcBody fetch decode = Inr b \<longleftrightarrow>
   (\<exists>feed alerts. ttcFeed fetch decode = Inr feed \<and> ttcAlerts feed = Inr alerts \<and>
      b = Obj [(''source'', Str ''bustime.ttc.ca''),
               (''count'', Num (int (length alerts))),
               (''alerts'', Arr alerts)])"
  by (auto simp: ttcBody_def andThen_eq_Inr)

lemma ttcHandler_200:
  "statusCode (ttcHandler fetch decode) = 200 \<longleftrightarrow> (\<exists>b. ttcBody fetch decode = Inr b)"
  by (cases "ttcBody fetch decode") (simp_all add: ttcHandler_success ttcHandler_failure)

text \<open>
  Claim C2. For a feed that was fetched and decoded, the handler answers 200 exactly
  when every entity that has an alert maps without an exception: an entity without an
  alert never causes an error. The 200 body is \<^verbatim>\<open>{source, count, alerts}\<close> with
  \<^verbatim>\<open>count\<close> the length of \<^verbatim>\<open>alerts\<close>, and \<^verbatim>\<open>alerts\<close> holds, in order, the record of
  each entity that has an alert and of no other: its length and the number of entities
  without an alert add up to the number of entities.
\<close>

theorem count_is_number_of_alerts:
  assumes "ttcFeed fetch decode = Inr feed"
  shows
    "(statusCode (ttcHandler fetch decode) = 200 \<longleftrightarrow>
        (\<forall>e \<in> set (entity feed). hasAlert e \<longrightarrow> (\<exists>v. mapAlert e = Inr v))) \<and>
     (statusCode (ttcHandler fetch decode) = 200 \<longrightarrow>
        (\<exists>alerts.
           body (ttcHandler fetch decode) =
             Some (JObj [(''source'', JStr ''bustime.ttc.ca''),
                         (''count'', JNum (int (length alerts))),
                         (''alerts'', JArr alerts)]) \<and>
           list_all2 (\<lambda>e j. \<exists>v. mapAlert e = Inr v \<and> stringify v = Some j)
             (filter hasAlert (entity feed)) alerts \<and>
           length alerts + length (filter (\<lambda>e. \<not> hasAlert e) (entity feed)) = length (entity feed)))"
proof (intro conjI impI)
  have "statusCode (ttcHandler fetch decode) = 200 \<longleftrightarrow> (\<exists>vs. ttcAlerts feed = Inr vs)"
    using assms by (simp add: ttcHandler_200 ttcBody_Inr)
  also have "\<dots> \<longleftrightarrow> (\<forall>e \<in> set (filter hasAlert (entity feed)). \<exists>v. mapAlert e = Inr v)"
    by (simp only: ttcAlerts_def mapM_succeeds_iff)
  also have "\<dots> \<longleftrightarrow> (\<forall>e \<in> set (entity feed). hasAlert e \<longrightarrow> (\<exists>v. mapAlert e = Inr v))"
    by auto
  finally show "statusCode (ttcHandler fetch decode) = 200 \<longleftrightarrow>
        (\<forall>e \<in> set (entity feed). hasAlert e \<longrightarrow> (\<exists>v. mapAlert e = Inr v))" .
next
  assume "statusCode (ttcHandler fetch decode) = 200"
  then obtain b where b: "ttcBody fetch decode = Inr b"
    by (auto simp: ttcHandler_200)
  with assms obtain vs where vs: "ttcAlerts feed = Inr vs"
    and b': "b = Obj [(''source'', Str ''bustime.ttc.ca''),
               (''count'', Num (int (length vs))),
               (''alerts'', Arr vs)]"
    by (auto simp: ttcBody_Inr)
  have all2: "list_all2 (\<lambda>e v. mapAlert e = Inr v) (filter hasAlert (entity feed)) vs"
    using vs by (simp add: ttcAlerts_def mapM_Inr_iff)
  let ?alerts = "stringifyElems vs"
  have "body (ttcHandler fetch decode) =
             Some (JObj [(''source'', JStr ''bustime.ttc.ca''),
                         (''count'', JNum (int (length ?alerts))),
                         (''alerts'', JArr ?alerts)])"
    by (simp add: ttcHandler_success [OF b] b')
  moreover have "list_all2 (\<lambda>e j. \<exists>v. mapAlert e = Inr v \<and> stringify v = Some j)
             (filter hasAlert (entity feed)) ?alerts"
    using all2 by (rule list_all2_stringify) (rule mapAlert_defined)
  moreover have "length ?alerts + length (filter (\<lambda>e. \<not> hasAlert e) (entity feed)) = length (entity feed)"
    using list_all2_lengthD [OF all2] sum_length_filter_compl [of hasAlert "entity feed"]
    by simp
  ultimately show "\<exists>alerts.
           body (ttcHandler fetch decode) =
             Some (JObj [(''source'', JStr ''bustime.ttc.ca''),
                         (''count'', JNum (int (length alerts))),
                         (''alerts'', JArr alerts)]) \<and>
           list_all2 (\<lambda>e j. \<exists>v. mapAlert e = Inr v \<and> stringify v = Some j)
             (filter hasAlert (entity feed)) alerts \<and>
           length alerts + length (filter (\<lambda>e. \<not> hasAlert e) (entity feed)) = length (entity feed)"
    by blast
qed

text \<open>The scenario: two entities, the second without an alert; the count is 1.\<close>

theorem count_is_number_of_alerts_witness:
  "ttcHandler (answering 200 ''OK'' ()) (yielding \<lparr>entity = [lineClosure, vehicleOnly]\<rparr>) =
     \<lparr>statusCode = 200,
      headers = [(''Cache-Control'', ''s-maxage=60, stale-while-revalidate=300''),
                 (''Access-Control-Allow-Origin'', ''*'')],
      body = Some (JObj [(''source'', JStr ''bustime.ttc.ca''),
                         (''count'', JNum 1),
                         (''alerts'', JArr [lineClosureJson])])\<rparr>"
proof -
  let ?fetch = "answering 200 ''OK'' () :: unit fetch"
  let ?feed = "\<lparr>entity = [lineClosure, vehicleOnly]\<rparr>"
  have feed: "ttcFeed ?fetch (yielding ?feed) = Inr ?feed"
    by (simp add: ttcFeed_def answering_def yielding_def ok_def)
  have has: "hasAlert lineClosure" "\<not> hasAlert vehicleOnly"
    by (simp_all add: hasAlert_def lineClosure_def vehicleOnly_def)
  have "statusCode (ttcHandler ?fetch (yielding ?feed)) = 200"
    using count_is_number_of_alerts [OF feed] has
    by (simp add: mapAlert_lineClosure)
  moreover have "body (ttcHandler ?fetch (yielding ?feed)) =
      Some (JObj [(''source'', JStr ''bustime.ttc.ca''), (''count'', JNum 1),
                  (''alerts'', JArr [lineClosureJson])])"
    using has
    by (simp add: ttcHandler_def ttcBody_def feed ttcAlerts_def mapAlert_lineClosure
          lineClosureJson_def response_defs)
  moreover have "headers (ttcHandler ?fetch (yielding ?feed)) =
      [(''Cache-Control'', ''s-maxage=60, stale-while-revalidate=300''),
       (''Access-Control-Allow-Origin'', ''*'')]"
    using has
    by (simp add: ttcHandler_def ttcBody_def feed ttcAlerts_def mapAlert_lineClosure response_defs)
  ultimately show ?thesis
    by (cases "ttcHandler ?fetch (yielding ?feed)") simp
qed

end
